theory Spec2Isabelle
  imports Complex_Main
begin

section \<open>JavaScript numbers and array reads\<close>

text \<open>
  The diagram code works on JavaScript numbers. A number is modelled as a real, computed
  exactly, or the value \<open>NaN\<close>, which arithmetic produces when an operand is
  \<open>undefined\<close> (an array read past the end). Rounding to binary64, overflow to
  an infinity and the sign of zero are outside the model: every divisor in the code is
  a non-zero literal, every base of \<open>Math.pow\<close> is positive and every argument of
  \<open>Math.sqrt\<close> is a sum of squares.
\<close>

datatype jsnum = Num real | NaN

fun lift1 :: "(real \<Rightarrow> real) \<Rightarrow> jsnum \<Rightarrow> jsnum" where
  "lift1 f (Num a) = Num (f a)"
| "lift1 f NaN = NaN"

fun lift2 :: "(real \<Rightarrow> real \<Rightarrow> real) \<Rightarrow> jsnum \<Rightarrow> jsnum \<Rightarrow> jsnum" where
  "lift2 f (Num a) (Num b) = Num (f a b)"
| "lift2 f _ _ = NaN"

definition jadd :: "jsnum \<Rightarrow> jsnum \<Rightarrow> jsnum" where
  "jadd = lift2 (+)"

definition jsub :: "jsnum \<Rightarrow> jsnum \<Rightarrow> jsnum" where
  "jsub = lift2 (-)"

definition jmul :: "jsnum \<Rightarrow> jsnum \<Rightarrow> jsnum" where
  "jmul = lift2 (*)"

definition jdiv :: "jsnum \<Rightarrow> jsnum \<Rightarrow> jsnum" where
  \<comment> \<open>only ever applied to a non-zero literal divisor\<close>
  "jdiv = lift2 (/)"

text \<open>\<open>a < b\<close> on numbers: false as soon as one side is \<open>NaN\<close>.\<close>

fun jlt :: "jsnum \<Rightarrow> jsnum \<Rightarrow> bool" where
  "jlt (Num a) (Num b) = (a < b)"
| "jlt _ _ = False"

text \<open>
  An array read \<open>xs[i]\<close>: the element, or \<open>undefined\<close> (\<open>None\<close>) past the end.
  In arithmetic \<open>undefined\<close> becomes \<open>NaN\<close>; a method call on it throws.
\<close>

definition at_index :: "'a list \<Rightarrow> nat \<Rightarrow> 'a option" where
  "at_index xs i = (if i < length xs then Some (xs ! i) else None)"

definition num_at :: "real list \<Rightarrow> nat \<Rightarrow> jsnum" where
  "num_at xs i = (case at_index xs i of Some v \<Rightarrow> Num v | None \<Rightarrow> NaN)"

text \<open>\<open>xs.map((v, i) => f(v, i))\<close>: the callback receives the element and its index.\<close>

definition map_index :: "('a \<Rightarrow> nat \<Rightarrow> 'b) \<Rightarrow> 'a list \<Rightarrow> 'b list" where
  "map_index f xs = map (\<lambda>(v, i). f v i) (zip xs [0..<length xs])"

datatype error = TypeError

section \<open>The sounding payload and the plot traces\<close>

text \<open>
  The payload handed to \<open>displayResults\<close>: five parallel arrays. Nothing in the
  code checks that they have the same length.
\<close>

record sounding =
  pressure :: "real list"
  temperature :: "real list"
  dewpoint :: "real list"
  u_wind :: "real list"
  v_wind :: "real list"

text \<open>
  A trace object given to the plotting library. Of its attributes the coordinates, the
  line width and the \<open>fill: 'toself'\<close> flag are kept; colours, legend switches and hover
  templates carry no geometry.
\<close>

record trace =
  trace_x :: "jsnum list"
  trace_y :: "jsnum list"
  line_width :: real
  fill_toself :: bool

section \<open>The device classification\<close>

text \<open>
  \<open>isLowPerformance\<close> is computed once when the page loads, from the viewport width, the
  reported number of logical processors (absent in some browsers: \<open>undefined <= 2\<close> is
  false) and a match of the user-agent string against a list of mobile systems.
\<close>

definition isLowPerformance :: "nat \<Rightarrow> nat option \<Rightarrow> bool \<Rightarrow> bool" where
  "isLowPerformance innerWidth hardwareConcurrency mobileUserAgent =
     (innerWidth \<le> 768
      \<or> (case hardwareConcurrency of Some n \<Rightarrow> n \<le> 2 | None \<Rightarrow> False)
      \<or> mobileUserAgent)"

section \<open>createTemperatureChart: the data traces\<close>

definition skewFactor :: real where
  "skewFactor = 0.04"

definition tempX :: "sounding \<Rightarrow> jsnum list" where
  "tempX data = map_index
     (\<lambda>t i. jadd (Num t) (jmul (jsub (Num 1000) (num_at (pressure data) i)) (Num skewFactor)))
     (temperature data)"

definition dewpointX :: "sounding \<Rightarrow> jsnum list" where
  "dewpointX data = map_index
     (\<lambda>t i. jadd (Num t) (jmul (jsub (Num 1000) (num_at (pressure data) i)) (Num skewFactor)))
     (dewpoint data)"

definition tempTrace :: "sounding \<Rightarrow> trace" where
  "tempTrace data =
     \<lparr>trace_x = tempX data, trace_y = map Num (pressure data),
      line_width = 2.5, fill_toself = False\<rparr>"

definition dewpointTrace :: "sounding \<Rightarrow> trace" where
  "dewpointTrace data =
     \<lparr>trace_x = dewpointX data, trace_y = map Num (pressure data),
      line_width = 2.5, fill_toself = False\<rparr>"

section \<open>createTemperatureChart: the background grid\<close>

text \<open>
  The loop counters (\<open>temp\<close>, \<open>p\<close>) start at integer literals and move by integer
  steps, so they are integers; they become reals where they enter a coordinate.
\<close>

definition isothermStep :: "bool \<Rightarrow> int" where
  "isothermStep lowPerf = (if lowPerf then 20 else 10)"

definition pressureStep :: "bool \<Rightarrow> int" where
  "pressureStep lowPerf = (if lowPerf then 100 else 50)"

text \<open>
  The inner loop of the isotherms,
  \<^verbatim>\<open>for (let p = 1050; p >= 100; p -= pressureStep) { x.push(...); y.push(p); }\<close>,
  with the two arrays as the state.
\<close>

function isothermPoints ::
  "bool \<Rightarrow> int \<Rightarrow> int \<Rightarrow> jsnum list \<times> jsnum list \<Rightarrow> jsnum list \<times> jsnum list" where
  "isothermPoints lowPerf temp p (x, y) =
     (if p \<ge> 100
      then isothermPoints lowPerf temp (p - pressureStep lowPerf)
             (x @ [Num (real_of_int temp + (1000 - real_of_int p) * skewFactor)],
              y @ [Num (real_of_int p)])
      else (x, y))"
  by pat_completeness auto
termination
  by (relation "measure (\<lambda>(lowPerf, temp, p, acc). nat (p - 99))")
     (auto simp: pressureStep_def)

declare isothermPoints.simps [simp del]

text \<open>The outer loop, \<^verbatim>\<open>for (let temp = -80; temp <= 40; temp += isothermStep)\<close>.\<close>

function isothermLoop :: "bool \<Rightarrow> int \<Rightarrow> trace list \<Rightarrow> trace list" where
  "isothermLoop lowPerf temp isotherms =
     (if temp \<le> 40
      then (case isothermPoints lowPerf temp 1050 ([], []) of (x, y) \<Rightarrow>
              isothermLoop lowPerf (temp + isothermStep lowPerf)
                (isotherms @ [\<lparr>trace_x = x, trace_y = y,
                                line_width = 0.5, fill_toself = False\<rparr>]))
      else isotherms)"
  by pat_completeness auto
termination
  by (relation "measure (\<lambda>(lowPerf, temp, acc). nat (41 - temp))")
     (auto simp: isothermStep_def)

declare isothermLoop.simps [simp del]

definition isotherms :: "bool \<Rightarrow> trace list" where
  "isotherms lowPerf = isothermLoop lowPerf (-80) []"

definition theta0Values :: "bool \<Rightarrow> int list" where
  "theta0Values lowPerf =
     (if lowPerf then [-40, 0, 40, 80] else [-40, -20, 0, 20, 40, 60, 80, 100])"

definition adiabatStep :: "bool \<Rightarrow> int" where
  "adiabatStep lowPerf = (if lowPerf then 20 else 10)"

text \<open>
  The temperature on a dry adiabat,
  \<^verbatim>\<open>const t = theta0 * Math.pow(p / 1000, 0.286) - 273.15\<close>.
  The entry of \<open>theta0Values\<close> is multiplied as it stands.
\<close>

definition adiabatT :: "int \<Rightarrow> int \<Rightarrow> real" where
  "adiabatT theta0 p = real_of_int theta0 * (real_of_int p / 1000) powr 0.286 - 273.15"

function adiabatPoints ::
  "bool \<Rightarrow> int \<Rightarrow> int \<Rightarrow> jsnum list \<times> jsnum list \<Rightarrow> jsnum list \<times> jsnum list" where
  "adiabatPoints lowPerf theta0 p (x, y) =
     (if p \<ge> 100
      then adiabatPoints lowPerf theta0 (p - adiabatStep lowPerf)
             (x @ [Num (adiabatT theta0 p + (1000 - real_of_int p) * skewFactor)],
              y @ [Num (real_of_int p)])
      else (x, y))"
  by pat_completeness auto
termination
  by (relation "measure (\<lambda>(lowPerf, theta0, p, acc). nat (p - 99))")
     (auto simp: adiabatStep_def)

declare adiabatPoints.simps [simp del]

text \<open>\<^verbatim>\<open>for (let theta0 of theta0Values)\<close>: one trace is pushed per entry.\<close>

fun adiabatLoop :: "bool \<Rightarrow> int list \<Rightarrow> trace list \<Rightarrow> trace list" where
  "adiabatLoop lowPerf [] dryAdiabats = dryAdiabats"
| "adiabatLoop lowPerf (theta0 # rest) dryAdiabats =
     (case adiabatPoints lowPerf theta0 1050 ([], []) of (x, y) \<Rightarrow>
        adiabatLoop lowPerf rest
          (dryAdiabats @ [\<lparr>trace_x = x, trace_y = y,
                            line_width = 0.5, fill_toself = False\<rparr>]))"

definition dryAdiabats :: "bool \<Rightarrow> trace list" where
  "dryAdiabats lowPerf = adiabatLoop lowPerf (theta0Values lowPerf) []"

definition pressureLevels :: "int list" where
  "pressureLevels = [1000, 850, 700, 500, 300, 200, 100]"

fun isobarLoop :: "int list \<Rightarrow> trace list \<Rightarrow> trace list" where
  "isobarLoop [] isobars = isobars"
| "isobarLoop (p # rest) isobars =
     isobarLoop rest
       (isobars @ [\<lparr>trace_x = [Num (-100 + (1000 - real_of_int p) * skewFactor),
                                  Num (60 + (1000 - real_of_int p) * skewFactor)],
                      trace_y = [Num (real_of_int p), Num (real_of_int p)],
                      line_width = 1, fill_toself = False\<rparr>])"

definition isobars :: "trace list" where
  "isobars = isobarLoop pressureLevels []"

text \<open>
  What \<open>createTemperatureChart\<close> hands to the plotting library: the array
  \<^verbatim>\<open>[...isobars, ...isotherms, ...dryAdiabats, tempTrace, dewpointTrace]\<close>, kept
  here with its five parts apart. \<open>lowPerf\<close> is the page-level \<open>isLowPerformance\<close>.
\<close>

record temperatureChart =
  isobarTraces :: "trace list"
  isothermTraces :: "trace list"
  dryAdiabatTraces :: "trace list"
  temperatureTrace :: trace
  dewTrace :: trace

definition createTemperatureChart :: "bool \<Rightarrow> sounding \<Rightarrow> temperatureChart" where
  "createTemperatureChart lowPerf data =
     \<lparr>isobarTraces = isobars,
      isothermTraces = isotherms lowPerf,
      dryAdiabatTraces = dryAdiabats lowPerf,
      temperatureTrace = tempTrace data,
      dewTrace = dewpointTrace data\<rparr>"

definition traces :: "temperatureChart \<Rightarrow> trace list" where
  "traces c = isobarTraces c @ isothermTraces c @ dryAdiabatTraces c
              @ [temperatureTrace c, dewTrace c]"

section \<open>Math.atan2 and the remainder operator\<close>

text \<open>
  \<open>Math.atan2(y, x)\<close> over the reals: the angle of the point \<open>(x, y)\<close>, between
  \<open>-\<pi>\<close> and \<open>\<pi>\<close>, and \<open>0\<close> at the origin.
\<close>

definition atan2 :: "real \<Rightarrow> real \<Rightarrow> real" where
  "atan2 y x =
     (if 0 < x then arctan (y / x)
      else if x < 0 then (if 0 \<le> y then arctan (y / x) + pi else arctan (y / x) - pi)
      else if 0 < y then pi / 2
      else if y < 0 then - pi / 2
      else 0)"

text \<open>
  \<open>a % b\<close>: the remainder of the division truncated towards zero, so that the result
  has the sign of \<open>a\<close>; \<open>NaN\<close> when \<open>b\<close> is zero.
\<close>

definition trunc :: "real \<Rightarrow> int" where
  "trunc r = (if 0 \<le> r then \<lfloor>r\<rfloor> else \<lceil>r\<rceil>)"

definition fmod :: "real \<Rightarrow> real \<Rightarrow> real" where
  "fmod a b = a - b * real_of_int (trunc (a / b))"

fun jrem :: "jsnum \<Rightarrow> jsnum \<Rightarrow> jsnum" where
  "jrem (Num a) (Num b) = (if b = 0 then NaN else Num (fmod a b))"
| "jrem _ _ = NaN"

section \<open>createWindChart\<close>

text \<open>
  The first loop, \<^verbatim>\<open>for (let i = 0; i < data.u_wind.length; i++)\<close>, fills the two
  arrays \<open>windSpeed\<close> and \<open>windDirection\<close>.
\<close>

definition speedOf :: "jsnum \<Rightarrow> jsnum \<Rightarrow> jsnum" where
  \<comment> \<open>\<^verbatim>\<open>Math.sqrt(u * u + v * v)\<close>\<close>
  "speedOf u v = lift1 sqrt (jadd (jmul u u) (jmul v v))"

definition directionOf :: "jsnum \<Rightarrow> jsnum \<Rightarrow> jsnum" where
  \<comment> \<open>\<^verbatim>\<open>(Math.atan2(u, v) * 180 / Math.PI + 180) % 360\<close>\<close>
  "directionOf u v =
     jrem (jadd (jdiv (jmul (lift2 atan2 u v) (Num 180)) (Num pi)) (Num 180)) (Num 360)"

function windLoop ::
  "sounding \<Rightarrow> nat \<Rightarrow> jsnum list \<times> jsnum list \<Rightarrow> jsnum list \<times> jsnum list" where
  "windLoop data i (windSpeed, windDirection) =
     (if i < length (u_wind data)
      then (let u = num_at (u_wind data) i;
                v = num_at (v_wind data) i;
                speed = speedOf u v;
                dir = directionOf u v
            in windLoop data (Suc i) (windSpeed @ [speed], windDirection @ [dir]))
      else (windSpeed, windDirection))"
  by pat_completeness auto
termination
  by (relation "measure (\<lambda>(data, i, acc). length (u_wind data) - i)") auto

declare windLoop.simps [simp del]

definition barbInterval :: "sounding \<Rightarrow> nat" where
  \<comment> \<open>\<^verbatim>\<open>Math.max(1, Math.floor(data.pressure.length / 20))\<close>\<close>
  "barbInterval data = max 1 (length (pressure data) div 20)"

definition barbLength :: "jsnum \<Rightarrow> jsnum" where
  \<comment> \<open>\<^verbatim>\<open>Math.min(speed / 5, 15)\<close>\<close>
  "barbLength speed = lift2 min (jdiv speed (Num 5)) (Num 15)"

definition numFlags :: "jsnum \<Rightarrow> jsnum" where
  \<comment> \<open>\<^verbatim>\<open>Math.floor(speed / 50)\<close>\<close>
  "numFlags speed = lift1 (\<lambda>r. real_of_int \<lfloor>r\<rfloor>) (jdiv speed (Num 50))"

definition numBarbs :: "jsnum \<Rightarrow> jsnum" where
  \<comment> \<open>\<^verbatim>\<open>Math.floor((speed - numFlags * 50) / 10)\<close>\<close>
  "numBarbs speed =
     lift1 (\<lambda>r. real_of_int \<lfloor>r\<rfloor>)
       (jdiv (jsub speed (jmul (numFlags speed) (Num 50))) (Num 10))"

text \<open>
  The pennants, \<^verbatim>\<open>for (let f = 0; f < numFlags; f++)\<close>: each pushes a filled triangle
  and moves \<open>currentPos\<close> by 0.15. The state is \<open>currentPos\<close> and the array \<open>windBarbs\<close>.
\<close>

function flagLoop ::
  "jsnum \<Rightarrow> jsnum \<Rightarrow> jsnum \<Rightarrow> jsnum \<Rightarrow> nat \<Rightarrow> real \<times> trace list \<Rightarrow> real \<times> trace list" where
  "flagLoop nFlags x1 dirRad p f (currentPos, windBarbs) =
     (if jlt (Num (real f)) nFlags
      then (let barbX = jmul x1 (Num currentPos);
                flagX = jsub barbX (jmul (Num 3) (lift1 cos dirRad));
                flagY = p
            in flagLoop nFlags x1 dirRad p (Suc f)
                 (currentPos - 0.15,
                  windBarbs @
                    [\<lparr>trace_x = [barbX, flagX, jsub barbX (jmul (Num 1.5) (lift1 sin dirRad))],
                      trace_y = [flagY, flagY, flagY],
                      line_width = 1, fill_toself = True\<rparr>]))
      else (currentPos, windBarbs))"
  by pat_completeness auto
termination
  apply (relation "measure (\<lambda>(nFlags, x1, dirRad, p, f, acc).
                     case nFlags of Num n \<Rightarrow> nat \<lceil>n\<rceil> - f | NaN \<Rightarrow> 0)")
   apply simp
  subgoal for nFlags x1 dirRad p f
    by (cases nFlags; simp) linarith
  done

declare flagLoop.simps [simp del]

text \<open>
  The ticks, \<^verbatim>\<open>for (let b = 0; b < numBarbs; b++)\<close>, continue from the position the
  pennants left and move \<open>currentPos\<close> by 0.1.
\<close>

function tickLoop ::
  "jsnum \<Rightarrow> jsnum \<Rightarrow> jsnum \<Rightarrow> jsnum \<Rightarrow> nat \<Rightarrow> real \<times> trace list \<Rightarrow> real \<times> trace list" where
  "tickLoop nBarbs x1 dirRad p b (currentPos, windBarbs) =
     (if jlt (Num (real b)) nBarbs
      then (let barbX = jmul x1 (Num currentPos);
                pX = jsub barbX (jmul (Num 2) (lift1 cos dirRad))
            in tickLoop nBarbs x1 dirRad p (Suc b)
                 (currentPos - 0.1,
                  windBarbs @
                    [\<lparr>trace_x = [barbX, pX], trace_y = [p, p],
                      line_width = 1.5, fill_toself = False\<rparr>]))
      else (currentPos, windBarbs))"
  by pat_completeness auto
termination
  apply (relation "measure (\<lambda>(nBarbs, x1, dirRad, p, b, acc).
                     case nBarbs of Num n \<Rightarrow> nat \<lceil>n\<rceil> - b | NaN \<Rightarrow> 0)")
   apply simp
  subgoal for nBarbs x1 dirRad p b
    by (cases nBarbs; simp) linarith
  done

declare tickLoop.simps [simp del]

text \<open>
  The body of the barb loop for one level, once \<open>speed\<close>, \<open>dir\<close> and \<open>p\<close> are read:
  the shaft is pushed, then the pennants, then the ticks.
\<close>

definition barbGlyph :: "jsnum \<Rightarrow> jsnum \<Rightarrow> jsnum \<Rightarrow> trace list \<Rightarrow> trace list" where
  "barbGlyph speed dir p windBarbs =
     (let dirRad = jdiv (jmul dir (Num pi)) (Num 180);
          x0 = Num 0;
          x1 = jmul (lift1 uminus (barbLength speed)) (lift1 sin dirRad);
          shaft = \<lparr>trace_x = [x0, x1], trace_y = [p, p],
                   line_width = 2, fill_toself = False\<rparr>;
          afterFlags = flagLoop (numFlags speed) x1 dirRad p 0 (0.7, windBarbs @ [shaft])
      in snd (tickLoop (numBarbs speed) x1 dirRad p 0 afterFlags))"

text \<open>
  The barb loop, \<^verbatim>\<open>for (let i = 0; i < data.pressure.length; i += barbInterval)\<close>.
  \<open>windSpeed[i]\<close> and \<open>windDirection[i]\<close> are \<open>undefined\<close> past the end of
  \<open>u_wind\<close>; the hover text of the shaft calls \<open>toFixed\<close> on both, which throws then,
  before anything is pushed for that level.
\<close>

function barbLoop ::
  "sounding \<Rightarrow> jsnum list \<Rightarrow> jsnum list \<Rightarrow> nat \<Rightarrow> trace list \<Rightarrow> error + trace list" where
  "barbLoop data windSpeed windDirection i windBarbs =
     (if i < length (pressure data)
      then (case (at_index windSpeed i, at_index windDirection i) of
              (Some speed, Some dir) \<Rightarrow>
                barbLoop data windSpeed windDirection (i + barbInterval data)
                  (barbGlyph speed dir (Num (pressure data ! i)) windBarbs)
            | _ \<Rightarrow> Inl TypeError)
      else Inr windBarbs)"
  by pat_completeness auto
termination
  by (relation "measure (\<lambda>(data, windSpeed, windDirection, i, acc). length (pressure data) - i)")
     (auto simp: barbInterval_def)

declare barbLoop.simps [simp del]

definition windSpeed :: "sounding \<Rightarrow> jsnum list" where
  "windSpeed data = fst (windLoop data 0 ([], []))"

definition windDirection :: "sounding \<Rightarrow> jsnum list" where
  "windDirection data = snd (windLoop data 0 ([], []))"

record windChart =
  speedTrace :: trace
  barbTraces :: "trace list"

definition createWindChart :: "sounding \<Rightarrow> error + windChart" where
  "createWindChart data =
     (case barbLoop data (windSpeed data) (windDirection data) 0 [] of
        Inl e \<Rightarrow> Inl e
      | Inr windBarbs \<Rightarrow>
          Inr \<lparr>speedTrace = \<lparr>trace_x = windSpeed data, trace_y = map Num (pressure data),
                              line_width = 2.5, fill_toself = False\<rparr>,
               barbTraces = windBarbs\<rparr>)"

text \<open>
  The three kinds of trace that make a barb glyph differ in their attributes: the shaft
  has line width 2, a pennant is the only filled shape, a tick has line width 1.5.
\<close>

definition isShaft :: "trace \<Rightarrow> bool" where
  "isShaft t = (line_width t = 2 \<and> \<not> fill_toself t)"

definition isFlag :: "trace \<Rightarrow> bool" where
  "isFlag t = fill_toself t"

definition isTick :: "trace \<Rightarrow> bool" where
  "isTick t = (line_width t = 1.5 \<and> \<not> fill_toself t)"

section \<open>createDataTable\<close>

text \<open>
  One table row per pressure level. The five cells are the texts that
  \<open>Number.prototype.toFixed\<close> returns; the function is a parameter here. A level past
  the end of \<open>temperature\<close> or \<open>dewpoint\<close> makes \<open>toFixed\<close> throw on \<open>undefined\<close>,
  and the table is then left as it was.
\<close>

record row =
  pressureCell :: string
  temperatureCell :: string
  dewpointCell :: string
  speedCell :: string
  directionCell :: string

function tableLoop ::
  "(jsnum \<Rightarrow> nat \<Rightarrow> string) \<Rightarrow> sounding \<Rightarrow> nat \<Rightarrow> row list \<Rightarrow> error + row list" where
  "tableLoop toFixed data i fragment =
     (if i < length (pressure data)
      then (let u = num_at (u_wind data) i;
                v = num_at (v_wind data) i;
                speed = speedOf u v;
                direction = directionOf u v
            in case (at_index (temperature data) i, at_index (dewpoint data) i) of
                 (Some t, Some td) \<Rightarrow>
                   tableLoop toFixed data (Suc i)
                     (fragment @
                        [\<lparr>pressureCell = toFixed (Num (pressure data ! i)) 1,
                          temperatureCell = toFixed (Num t) 1,
                          dewpointCell = toFixed (Num td) 1,
                          speedCell = toFixed speed 1,
                          directionCell = toFixed direction 0\<rparr>])
               | _ \<Rightarrow> Inl TypeError)
      else Inr fragment)"
  by pat_completeness auto
termination
  by (relation "measure (\<lambda>(toFixed, data, i, acc). length (pressure data) - i)") auto

declare tableLoop.simps [simp del]

definition createDataTable :: "(jsnum \<Rightarrow> nat \<Rightarrow> string) \<Rightarrow> sounding \<Rightarrow> error + row list" where
  "createDataTable toFixed data = tableLoop toFixed data 0 []"

section \<open>Reference definitions for the properties\<close>

text \<open>
  The definitions of this section are not code of the program. They describe the outputs
  in closed form, so that the loops above can be compared with them.
\<close>

text \<open>\<open>n\<close> values going down from \<open>p\<close>, respectively up from \<open>t\<close>, by \<open>step\<close>.\<close>

definition descending :: "int \<Rightarrow> int \<Rightarrow> nat \<Rightarrow> int list" where
  "descending p step n = map (\<lambda>k. p - step * int k) [0..<n]"

definition ascending :: "int \<Rightarrow> int \<Rightarrow> nat \<Rightarrow> int list" where
  "ascending t step n = map (\<lambda>k. t + step * int k) [0..<n]"

text \<open>
  The polyline of one isotherm: the pressures \<open>ps\<close> in order, each point skewed with
  the temperature held at \<open>t\<close>. Likewise for one dry adiabat, with the temperature
  taken from \<open>adiabatT\<close>.
\<close>

definition isothermPolyline :: "int list \<Rightarrow> int \<Rightarrow> trace" where
  "isothermPolyline ps t =
     \<lparr>trace_x = map (\<lambda>p. Num (real_of_int t + (1000 - real_of_int p) * skewFactor)) ps,
      trace_y = map (\<lambda>p. Num (real_of_int p)) ps,
      line_width = 0.5, fill_toself = False\<rparr>"

definition adiabatPolyline :: "int list \<Rightarrow> int \<Rightarrow> trace" where
  "adiabatPolyline ps theta0 =
     \<lparr>trace_x = map (\<lambda>p. Num (adiabatT theta0 p + (1000 - real_of_int p) * skewFactor)) ps,
      trace_y = map (\<lambda>p. Num (real_of_int p)) ps,
      line_width = 0.5, fill_toself = False\<rparr>"

definition samplePressures :: "bool \<Rightarrow> int list" where
  "samplePressures lowPerf =
     (if lowPerf then descending 1050 100 10 else descending 1050 50 20)"

definition adiabatPressures :: "bool \<Rightarrow> int list" where
  "adiabatPressures lowPerf =
     (if lowPerf then descending 1050 20 48 else descending 1050 10 96)"

text \<open>
  The inverse Poisson relation as the specification words it, with the reference value
  \<open>theta0\<close> (in degrees Celsius) expressed as an absolute temperature before it is
  multiplied.
\<close>

definition poissonT :: "real \<Rightarrow> real \<Rightarrow> real" where
  "poissonT theta0 p = (theta0 + 273.15) * (p / 1000) powr 0.286 - 273.15"

text \<open>
  The inverse of the skew formula as the specification gives it,
  \<open>v = x - (1000 - p) * skewFactor\<close>. The program never inverts the projection.
\<close>

definition unskew :: "jsnum \<Rightarrow> jsnum \<Rightarrow> jsnum" where
  "unskew x p = jsub x (jmul (jsub (Num 1000) p) (Num skewFactor))"

text \<open>
  The number of rounds of a loop \<^verbatim>\<open>for (let k = 0; k < n; k++)\<close> whose bound is the
  number \<open>n\<close>: none when \<open>n\<close> is \<open>NaN\<close> or not positive.
\<close>

definition loopCount :: "jsnum \<Rightarrow> nat" where
  "loopCount n = (case n of Num r \<Rightarrow> nat \<lceil>r\<rceil> | NaN \<Rightarrow> 0)"

text \<open>
  The end of the shaft and the direction in radians, as \<open>barbGlyph\<close> computes them,
  and the three kinds of trace it pushes; a pennant or tick is drawn at the fraction
  \<open>currentPos\<close> of the shaft.
\<close>

definition glyphDirRad :: "jsnum \<Rightarrow> jsnum" where
  "glyphDirRad dir = jdiv (jmul dir (Num pi)) (Num 180)"

definition glyphX1 :: "jsnum \<Rightarrow> jsnum \<Rightarrow> jsnum" where
  "glyphX1 speed dir =
     jmul (lift1 uminus (barbLength speed)) (lift1 sin (glyphDirRad dir))"

definition shaftTrace :: "jsnum \<Rightarrow> jsnum \<Rightarrow> jsnum \<Rightarrow> trace" where
  "shaftTrace x1 dirRad p =
     \<lparr>trace_x = [Num 0, x1], trace_y = [p, p], line_width = 2, fill_toself = False\<rparr>"

definition flagTrace :: "jsnum \<Rightarrow> jsnum \<Rightarrow> jsnum \<Rightarrow> real \<Rightarrow> trace" where
  "flagTrace x1 dirRad p currentPos =
     \<lparr>trace_x = [jmul x1 (Num currentPos),
                 jsub (jmul x1 (Num currentPos)) (jmul (Num 3) (lift1 cos dirRad)),
                 jsub (jmul x1 (Num currentPos)) (jmul (Num 1.5) (lift1 sin dirRad))],
      trace_y = [p, p, p], line_width = 1, fill_toself = True\<rparr>"

definition tickTrace :: "jsnum \<Rightarrow> jsnum \<Rightarrow> jsnum \<Rightarrow> real \<Rightarrow> trace" where
  "tickTrace x1 dirRad p currentPos =
     \<lparr>trace_x = [jmul x1 (Num currentPos),
                 jsub (jmul x1 (Num currentPos)) (jmul (Num 2) (lift1 cos dirRad))],
      trace_y = [p, p], line_width = 1.5, fill_toself = False\<rparr>"

text \<open>
  The indices \<open>i\<close>, \<open>i + k\<close>, \<open>i + 2k\<close>, ... below \<open>N\<close>, and the levels that the
  decimation by \<open>max(1, floor(N / 20))\<close> keeps of \<open>N\<close>: 0, k, 2k, ...
\<close>

definition levelsFrom :: "nat \<Rightarrow> nat \<Rightarrow> nat \<Rightarrow> nat list" where
  "levelsFrom i k N = map (\<lambda>m. i + m * k) [0..<(N - i + k - 1) div k]"

definition selectedLevels :: "nat \<Rightarrow> nat list" where
  "selectedLevels N = levelsFrom 0 (max 1 (N div 20)) N"

text \<open>A sounding of five levels, used to instantiate the theorems.\<close>

definition sampleSounding :: sounding where
  "sampleSounding =
     \<lparr>pressure = [1000, 850, 700, 500, 300],
      temperature = [15, 5, -5, -20, -45],
      dewpoint = [10, 0, -12, -30, -55],
      u_wind = [0, 30, 39, 60, -20],
      v_wind = [-10, 40, 52, 25, 0]\<rparr>"

text \<open>A sounding of \<open>n\<close> levels, 20 hPa apart from 1000 hPa upwards.\<close>

definition uniformSounding :: "nat \<Rightarrow> sounding" where
  "uniformSounding n =
     \<lparr>pressure = map (\<lambda>j. 1000 - 20 * real j) [0..<n],
      temperature = map (\<lambda>j. 15 - 2 * real j) [0..<n],
      dewpoint = map (\<lambda>j. 10 - 2 * real j) [0..<n],
      u_wind = replicate n 3,
      v_wind = replicate n 4\<rparr>"

section \<open>Array reads and the index-aware map\<close>

lemma length_map_index: "length (map_index f xs) = length xs"
  by (simp add: map_index_def)

lemma nth_map_index: "i < length xs \<Longrightarrow> map_index f xs ! i = f (xs ! i) i"
  by (simp add: map_index_def)

lemma num_at_in_range: "i < length xs \<Longrightarrow> num_at xs i = Num (xs ! i)"
  by (simp add: num_at_def at_index_def)

lemma num_at_past_end: "length xs \<le> i \<Longrightarrow> num_at xs i = NaN"
  by (simp add: num_at_def at_index_def)

lemma skew_in_range:
  "i < length ps \<Longrightarrow>
   jadd (Num t) (jmul (jsub (Num 1000) (num_at ps i)) (Num skewFactor))
     = Num (t + (1000 - ps ! i) * skewFactor)"
  by (simp add: num_at_in_range jadd_def jmul_def jsub_def)

lemma tempX_nth:
  "i < length (temperature data) \<Longrightarrow> i < length (pressure data) \<Longrightarrow>
   tempX data ! i = Num (temperature data ! i + (1000 - pressure data ! i) * skewFactor)"
  by (simp add: tempX_def nth_map_index skew_in_range)

lemma dewpointX_nth:
  "i < length (dewpoint data) \<Longrightarrow> i < length (pressure data) \<Longrightarrow>
   dewpointX data ! i = Num (dewpoint data ! i + (1000 - pressure data ! i) * skewFactor)"
  by (simp add: dewpointX_def nth_map_index skew_in_range)

section \<open>The Skew-T projection of the data traces\<close>

text \<open>
  Claim C1. For a sounding of \<open>N\<close> levels and every index \<open>i < N\<close>, the temperature
  trace has \<open>x[i] = temperature[i] + (1000 - pressure[i]) * skewFactor\<close>, the dewpoint
  trace has \<open>x[i] = dewpoint[i] + (1000 - pressure[i]) * skewFactor\<close>, both have
  \<open>y[i] = pressure[i]\<close>, both \<open>x\<close> sequences have length \<open>N\<close>, and \<open>skewFactor\<close> is
  the constant 0.04.
\<close>

theorem skew_projection:
  assumes "length (pressure data) = N" and "length (temperature data) = N"
    and "length (dewpoint data) = N" and "i < N"
  shows "trace_x (temperatureTrace (createTemperatureChart lowPerf data)) ! i
           = Num (temperature data ! i + (1000 - pressure data ! i) * skewFactor)
       \<and> trace_x (dewTrace (createTemperatureChart lowPerf data)) ! i
           = Num (dewpoint data ! i + (1000 - pressure data ! i) * skewFactor)
       \<and> trace_y (temperatureTrace (createTemperatureChart lowPerf data)) ! i
           = Num (pressure data ! i)
       \<and> trace_y (dewTrace (createTemperatureChart lowPerf data)) ! i
           = Num (pressure data ! i)
       \<and> length (trace_x (temperatureTrace (createTemperatureChart lowPerf data))) = N
       \<and> length (trace_x (dewTrace (createTemperatureChart lowPerf data))) = N
       \<and> skewFactor = 0.04"
proof -
  have "tempX data ! i = Num (temperature data ! i + (1000 - pressure data ! i) * skewFactor)"
    using assms by (simp add: tempX_nth)
  moreover
  have "dewpointX data ! i = Num (dewpoint data ! i + (1000 - pressure data ! i) * skewFactor)"
    using assms by (simp add: dewpointX_nth)
  moreover have "length (tempX data) = N" "length (dewpointX data) = N"
    using assms by (simp_all add: tempX_def dewpointX_def length_map_index)
  moreover have "skewFactor = 0.04"
    by (simp add: skewFactor_def)
  ultimately show ?thesis
    using assms by (simp add: createTemperatureChart_def tempTrace_def dewpointTrace_def)
qed

theorem skew_projection_witness:
  "length (pressure sampleSounding) = 5 \<and> length (temperature sampleSounding) = 5
   \<and> length (dewpoint sampleSounding) = 5 \<and> (1::nat) < 5
   \<and> trace_x (temperatureTrace (createTemperatureChart False sampleSounding)) ! 1 = Num 11
   \<and> trace_x (dewTrace (createTemperatureChart False sampleSounding)) ! 1 = Num 6
   \<and> trace_y (temperatureTrace (createTemperatureChart False sampleSounding)) ! 1 = Num 850
   \<and> length (trace_x (temperatureTrace (createTemperatureChart False sampleSounding))) = 5"
  using skew_projection [of sampleSounding 5 1 False]
  by (simp add: sampleSounding_def skewFactor_def)

text \<open>
  Claim C9. Round trip: for every level of a sounding, the inverse formula
  \<open>v = x - (1000 - p) * skewFactor\<close> applied to a projected coordinate and its pressure
  gives back the temperature, respectively the dewpoint, of that level. Over the reals
  the value is recovered exactly.
\<close>

theorem skew_round_trip:
  assumes "length (pressure data) = N" and "length (temperature data) = N"
    and "length (dewpoint data) = N" and "i < N"
  shows "unskew (trace_x (temperatureTrace (createTemperatureChart lowPerf data)) ! i)
                (trace_y (temperatureTrace (createTemperatureChart lowPerf data)) ! i)
           = Num (temperature data ! i)
       \<and> unskew (trace_x (dewTrace (createTemperatureChart lowPerf data)) ! i)
                (trace_y (dewTrace (createTemperatureChart lowPerf data)) ! i)
           = Num (dewpoint data ! i)"
  using assms
  by (simp add: createTemperatureChart_def tempTrace_def dewpointTrace_def tempX_nth
      dewpointX_nth unskew_def jsub_def jmul_def)

theorem skew_round_trip_witness:
  "length (pressure sampleSounding) = 5 \<and> length (temperature sampleSounding) = 5
   \<and> length (dewpoint sampleSounding) = 5 \<and> (3::nat) < 5
   \<and> trace_x (temperatureTrace (createTemperatureChart True sampleSounding)) ! 3 = Num 0
   \<and> unskew (trace_x (temperatureTrace (createTemperatureChart True sampleSounding)) ! 3)
             (trace_y (temperatureTrace (createTemperatureChart True sampleSounding)) ! 3)
        = Num (-20)
   \<and> unskew (trace_x (dewTrace (createTemperatureChart True sampleSounding)) ! 3)
             (trace_y (dewTrace (createTemperatureChart True sampleSounding)) ! 3)
        = Num (-30)"
proof -
  have x: "trace_x (temperatureTrace (createTemperatureChart True sampleSounding)) ! 3 = Num 0"
    by (simp add: createTemperatureChart_def tempTrace_def tempX_nth sampleSounding_def
        skewFactor_def)
  show ?thesis
    using skew_round_trip [of sampleSounding 5 3 True] x
    by (simp add: sampleSounding_def)
qed

section \<open>The loops of the background grid in closed form\<close>

lemma descending_Suc: "descending p step (Suc n) = p # descending (p - step) step n"
  by (simp add: descending_def map_upt_Suc algebra_simps del: upt_Suc)

lemma ascending_Suc: "ascending t step (Suc n) = t # ascending (t + step) step n"
  by (simp add: ascending_def map_upt_Suc algebra_simps del: upt_Suc)

lemma descending_shift:
  assumes "\<forall>k<Suc n. (100::int) \<le> p - s * int k"
  shows "100 \<le> p" and "\<forall>k<n. 100 \<le> p - s - s * int k"
proof -
  from assms have "100 \<le> p - s * int 0" by blast
  then show "100 \<le> p" by simp
  show "\<forall>k<n. 100 \<le> p - s - s * int k"
  proof (intro allI impI)
    fix k assume "k < n"
    then have "Suc k < Suc n" by simp
    with assms have "100 \<le> p - s * int (Suc k)" by blast
    then show "100 \<le> p - s - s * int k"
      by (simp add: algebra_simps)
  qed
qed

lemma length_descending: "length (descending p s n) = n"
  by (simp add: descending_def)

lemma length_ascending: "length (ascending p s n) = n"
  by (simp add: ascending_def)

lemma nth_descending: "k < n \<Longrightarrow> descending p s n ! k = p - s * int k"
  by (simp add: descending_def)

lemma nth_ascending: "k < n \<Longrightarrow> ascending p s n ! k = p + s * int k"
  by (simp add: ascending_def)

text \<open>
  The inner loops push one point per pressure of a descending run that ends with the
  last value not below 100.
\<close>

lemma isothermPoints_descending:
  "p - pressureStep lowPerf * int n < 100 \<Longrightarrow>
   \<forall>k<n. 100 \<le> p - pressureStep lowPerf * int k \<Longrightarrow>
   isothermPoints lowPerf temp p (x, y) =
     (x @ map (\<lambda>q. Num (real_of_int temp + (1000 - real_of_int q) * skewFactor))
            (descending p (pressureStep lowPerf) n),
      y @ map (\<lambda>q. Num (real_of_int q)) (descending p (pressureStep lowPerf) n))"
proof (induction n arbitrary: p x y)
  case 0
  then show ?case by (subst isothermPoints.simps) (simp add: descending_def)
next
  case (Suc n)
  have a: "p - pressureStep lowPerf - pressureStep lowPerf * int n < 100"
    using Suc.prems(1) by (simp add: algebra_simps)
  show ?case
    using descending_shift(1) [OF Suc.prems(2)]
    by (subst isothermPoints.simps)
       (simp add: Suc.IH [OF a descending_shift(2) [OF Suc.prems(2)]] descending_Suc)
qed

lemma adiabatPoints_descending:
  "p - adiabatStep lowPerf * int n < 100 \<Longrightarrow>
   \<forall>k<n. 100 \<le> p - adiabatStep lowPerf * int k \<Longrightarrow>
   adiabatPoints lowPerf theta0 p (x, y) =
     (x @ map (\<lambda>q. Num (adiabatT theta0 q + (1000 - real_of_int q) * skewFactor))
            (descending p (adiabatStep lowPerf) n),
      y @ map (\<lambda>q. Num (real_of_int q)) (descending p (adiabatStep lowPerf) n))"
proof (induction n arbitrary: p x y)
  case 0
  then show ?case by (subst adiabatPoints.simps) (simp add: descending_def)
next
  case (Suc n)
  have a: "p - adiabatStep lowPerf - adiabatStep lowPerf * int n < 100"
    using Suc.prems(1) by (simp add: algebra_simps)
  show ?case
    using descending_shift(1) [OF Suc.prems(2)]
    by (subst adiabatPoints.simps)
       (simp add: Suc.IH [OF a descending_shift(2) [OF Suc.prems(2)]] descending_Suc)
qed

lemma isothermPoints_full:
  "isothermPoints False temp 1050 ([], []) =
     (trace_x (isothermPolyline (descending 1050 50 20) temp),
      trace_y (isothermPolyline (descending 1050 50 20) temp))"
proof -
  have s: "pressureStep False = 50"
    by (simp add: pressureStep_def)
  have a: "1050 - pressureStep False * int 20 < 100"
    by (simp add: s)
  have b: "\<forall>k<20. 100 \<le> 1050 - pressureStep False * int k"
    unfolding s by (intro allI impI) linarith
  show ?thesis
    by (simp add: isothermPoints_descending [OF a b] s isothermPolyline_def)
qed

lemma isothermPoints_constrained:
  "isothermPoints True temp 1050 ([], []) =
     (trace_x (isothermPolyline (descending 1050 100 10) temp),
      trace_y (isothermPolyline (descending 1050 100 10) temp))"
proof -
  have s: "pressureStep True = 100"
    by (simp add: pressureStep_def)
  have a: "1050 - pressureStep True * int 10 < 100"
    by (simp add: s)
  have b: "\<forall>k<10. 100 \<le> 1050 - pressureStep True * int k"
    unfolding s by (intro allI impI) linarith
  show ?thesis
    by (simp add: isothermPoints_descending [OF a b] s isothermPolyline_def)
qed

lemma adiabatPoints_full:
  "adiabatPoints False theta0 1050 ([], []) =
     (trace_x (adiabatPolyline (descending 1050 10 96) theta0),
      trace_y (adiabatPolyline (descending 1050 10 96) theta0))"
proof -
  have s: "adiabatStep False = 10"
    by (simp add: adiabatStep_def)
  have a: "1050 - adiabatStep False * int 96 < 100"
    by (simp add: s)
  have b: "\<forall>k<96. 100 \<le> 1050 - adiabatStep False * int k"
    unfolding s by (intro allI impI) linarith
  show ?thesis
    by (simp add: adiabatPoints_descending [OF a b] s adiabatPolyline_def)
qed

lemma adiabatPoints_constrained:
  "adiabatPoints True theta0 1050 ([], []) =
     (trace_x (adiabatPolyline (descending 1050 20 48) theta0),
      trace_y (adiabatPolyline (descending 1050 20 48) theta0))"
proof -
  have s: "adiabatStep True = 20"
    by (simp add: adiabatStep_def)
  have a: "1050 - adiabatStep True * int 48 < 100"
    by (simp add: s)
  have b: "\<forall>k<48. 100 \<le> 1050 - adiabatStep True * int k"
    unfolding s by (intro allI impI) linarith
  show ?thesis
    by (simp add: adiabatPoints_descending [OF a b] s adiabatPolyline_def)
qed

lemma isothermPoints_polyline:
  "isothermPoints lowPerf temp 1050 ([], []) =
     (trace_x (isothermPolyline (samplePressures lowPerf) temp),
      trace_y (isothermPolyline (samplePressures lowPerf) temp))"
  by (cases lowPerf) (simp_all add: isothermPoints_full isothermPoints_constrained samplePressures_def)

lemma adiabatPoints_polyline:
  "adiabatPoints lowPerf theta0 1050 ([], []) =
     (trace_x (adiabatPolyline (adiabatPressures lowPerf) theta0),
      trace_y (adiabatPolyline (adiabatPressures lowPerf) theta0))"
  by (cases lowPerf) (simp_all add: adiabatPoints_full adiabatPoints_constrained adiabatPressures_def)

text \<open>The outer loops push one polyline per temperature, respectively per \<open>theta0\<close>.\<close>

lemma isothermLoop_ascending:
  "40 < temp + isothermStep lowPerf * int n \<Longrightarrow>
   \<forall>k<n. temp + isothermStep lowPerf * int k \<le> 40 \<Longrightarrow>
   isothermLoop lowPerf temp acc =
     acc @ map (isothermPolyline (samplePressures lowPerf)) (ascending temp (isothermStep lowPerf) n)"
proof (induction n arbitrary: temp acc)
  case 0
  then show ?case by (subst isothermLoop.simps) (simp add: ascending_def)
next
  case (Suc n)
  from Suc.prems(2) have "temp + isothermStep lowPerf * int 0 \<le> 40" by blast
  then have t: "temp \<le> 40" by simp
  have a: "40 < temp + isothermStep lowPerf + isothermStep lowPerf * int n"
    using Suc.prems(1) by (simp add: algebra_simps)
  have b: "\<forall>k<n. temp + isothermStep lowPerf + isothermStep lowPerf * int k \<le> 40"
  proof (intro allI impI)
    fix k assume "k < n"
    then have "Suc k < Suc n" by simp
    with Suc.prems(2) have "temp + isothermStep lowPerf * int (Suc k) \<le> 40" by blast
    then show "temp + isothermStep lowPerf + isothermStep lowPerf * int k \<le> 40"
      by (simp add: algebra_simps)
  qed
  show ?case
    using t Suc.IH [OF a b]
    by (subst isothermLoop.simps) (simp add: isothermPoints_polyline ascending_Suc isothermPolyline_def)
qed

lemma isotherms_full:
  "isotherms False = map (isothermPolyline (descending 1050 50 20)) (ascending (-80) 10 13)"
proof -
  have s: "isothermStep False = 10"
    by (simp add: isothermStep_def)
  have a: "40 < -80 + isothermStep False * int 13"
    by (simp add: s)
  have b: "\<forall>k<13. -80 + isothermStep False * int k \<le> 40"
    unfolding s by (intro allI impI) linarith
  show ?thesis
    by (simp add: isotherms_def isothermLoop_ascending [OF a b] s samplePressures_def)
qed

lemma isotherms_constrained:
  "isotherms True = map (isothermPolyline (descending 1050 100 10)) (ascending (-80) 20 7)"
proof -
  have s: "isothermStep True = 20"
    by (simp add: isothermStep_def)
  have a: "40 < -80 + isothermStep True * int 7"
    by (simp add: s)
  have b: "\<forall>k<7. -80 + isothermStep True * int k \<le> 40"
    unfolding s by (intro allI impI) linarith
  show ?thesis
    by (simp add: isotherms_def isothermLoop_ascending [OF a b] s samplePressures_def)
qed

lemma adiabatLoop_map:
  "adiabatLoop lowPerf ths acc = acc @ map (adiabatPolyline (adiabatPressures lowPerf)) ths"
proof (induction ths arbitrary: acc)
  case Nil
  then show ?case by simp
next
  case (Cons theta0 rest)
  show ?case
    by (simp add: Cons.IH adiabatPoints_polyline adiabatPolyline_def)
qed

lemma dryAdiabats_map:
  "dryAdiabats lowPerf = map (adiabatPolyline (adiabatPressures lowPerf)) (theta0Values lowPerf)"
  by (simp add: dryAdiabats_def adiabatLoop_map)

lemma isotherm_sizes:
  "length (isotherms False) = 13" "length (isotherms True) = 7"
  "t \<in> set (isotherms False) \<Longrightarrow> length (trace_x t) = 20 \<and> length (trace_y t) = 20"
  "t \<in> set (isotherms True) \<Longrightarrow> length (trace_x t) = 10 \<and> length (trace_y t) = 10"
  by (auto simp: isotherms_full isotherms_constrained length_ascending length_descending
      isothermPolyline_def)

lemma adiabat_sizes:
  "length (dryAdiabats False) = 8" "length (dryAdiabats True) = 4"
  "t \<in> set (dryAdiabats False) \<Longrightarrow> length (trace_x t) = 96 \<and> length (trace_y t) = 96"
  "t \<in> set (dryAdiabats True) \<Longrightarrow> length (trace_x t) = 48 \<and> length (trace_y t) = 48"
  by (auto simp: dryAdiabats_map theta0Values_def adiabatPressures_def length_descending
      adiabatPolyline_def)

lemma adiabat_at_1000:
  "adiabatT 0 1000 = -273.15" "poissonT 0 1000 = 0"
  by (simp_all add: adiabatT_def poissonT_def)

lemma isobarLoop_map:
  "isobarLoop ps acc =
     acc @ map (\<lambda>p. \<lparr>trace_x = [Num (-100 + (1000 - real_of_int p) * skewFactor),
                                  Num (60 + (1000 - real_of_int p) * skewFactor)],
                      trace_y = [Num (real_of_int p), Num (real_of_int p)],
                      line_width = 1, fill_toself = False\<rparr>) ps"
  by (induction ps arbitrary: acc) simp_all

lemma descending_full:
  "descending 1050 50 20 =
     [1050, 1000, 950, 900, 850, 800, 750, 700, 650, 600,
      550, 500, 450, 400, 350, 300, 250, 200, 150, 100]"
  by (simp add: descending_def upt_rec)

lemma descending_constrained:
  "descending 1050 100 10 = [1050, 950, 850, 750, 650, 550, 450, 350, 250, 150]"
  by (simp add: descending_def upt_rec)

lemma ascending_full:
  "ascending (-80) 10 13 = [-80, -70, -60, -50, -40, -30, -20, -10, 0, 10, 20, 30, 40]"
  by (simp add: ascending_def upt_rec)

lemma ascending_constrained:
  "ascending (-80) 20 7 = [-80, -60, -40, -20, 0, 20, 40]"
  by (simp add: ascending_def upt_rec)

text \<open>
  With \<open>theta0\<close> at most 100 the temperature computed for a dry adiabat stays below
  -168 at every sampled pressure. The layout of the chart fixes the x axis to the
  range from -60 to 60, so every point of every dry adiabat lies left of the plot.
\<close>

lemma powr_286_le:
  assumes "0 < y" "y \<le> 1.05"
  shows "y powr 0.286 \<le> (1.05::real)"
proof (cases "y \<le> 1")
  case True
  with assms have "y powr 0.286 \<le> 1 powr 0.286"
    by (intro powr_mono2) simp_all
  then show ?thesis by simp
next
  case False
  then have "y powr 0.286 \<le> y powr 1"
    by (intro powr_mono) simp_all
  with assms show ?thesis by simp
qed

lemma adiabatT_below:
  assumes "theta0 \<le> 100" "100 \<le> p" "p \<le> 1050"
  shows "adiabatT theta0 p \<le> -168"
proof -
  let ?y = "(real_of_int p / 1000) powr 0.286"
  have y0: "0 \<le> ?y" by simp
  have y1: "?y \<le> 1.05"
    using assms by (intro powr_286_le) simp_all
  have "real_of_int theta0 * ?y \<le> 105"
  proof (cases "theta0 \<le> 0")
    case True
    then have "real_of_int theta0 * ?y \<le> 0"
      using y0 by (simp add: mult_nonpos_nonneg)
    then show ?thesis by simp
  next
    case False
    then have "real_of_int theta0 * ?y \<le> 100 * 1.05"
      using assms(1) y0 y1 by (intro mult_mono) simp_all
    then show ?thesis by simp
  qed
  then show ?thesis
    by (simp add: adiabatT_def)
qed

lemma set_descending: "q \<in> set (descending p s n) \<Longrightarrow> \<exists>k<n. q = p - s * int k"
  by (auto simp: descending_def)

lemma adiabatPressures_range:
  "q \<in> set (adiabatPressures lowPerf) \<Longrightarrow> 100 \<le> q \<and> q \<le> 1050"
  by (cases lowPerf) (auto simp: adiabatPressures_def dest!: set_descending)

lemma dry_adiabats_left_of_chart:
  assumes "t \<in> set (dryAdiabats lowPerf)" "x \<in> set (trace_x t)"
  shows "\<exists>r. x = Num r \<and> r < -60"
proof -
  from assms(1) obtain theta0 where th: "theta0 \<in> set (theta0Values lowPerf)"
    and t: "t = adiabatPolyline (adiabatPressures lowPerf) theta0"
    by (auto simp: dryAdiabats_map)
  from th have th100: "theta0 \<le> 100"
    by (auto simp: theta0Values_def split: if_splits)
  from assms(2) t obtain q where q: "q \<in> set (adiabatPressures lowPerf)"
    and x: "x = Num (adiabatT theta0 q + (1000 - real_of_int q) * skewFactor)"
    by (auto simp: adiabatPolyline_def)
  from adiabatPressures_range [OF q] have r: "100 \<le> q" "q \<le> 1050"
    by simp_all
  from adiabatT_below [OF th100 r] have "adiabatT theta0 q \<le> -168" .
  moreover from r have "(1000 - real_of_int q) * skewFactor \<le> 36"
    by (simp add: skewFactor_def)
  ultimately have "adiabatT theta0 q + (1000 - real_of_int q) * skewFactor < -60"
    by linarith
  with x show ?thesis by blast
qed

section \<open>Properties of the background grid\<close>

text \<open>
  Claim C2. For every reference value \<open>theta0\<close> of the configured set and every
  sampled pressure \<open>p\<close>, the temperature of the dry adiabat before skewing is
  \<open>theta0_K * (p / 1000) ^ 0.286 - 273.15\<close>, where \<open>theta0_K\<close> is \<open>theta0\<close> expressed
  as an absolute temperature. The program multiplies the entry of \<open>theta0Values\<close> as it
  stands: at the third entry of the full set, \<open>theta0 = 0\<close>, and the sixth sampled
  pressure, 1000 hPa, it emits -273.15 where the relation gives 0.
\<close>

theorem dry_adiabat_theta0_not_absolute:
  "theta0Values False ! 2 = 0
   \<and> trace_y (dryAdiabats False ! 2) ! 5 = Num 1000
   \<and> trace_x (dryAdiabats False ! 2) ! 5 = Num (adiabatT 0 1000 + (1000 - 1000) * skewFactor)
   \<and> adiabatT 0 1000 = -273.15
   \<and> poissonT 0 1000 = 0"
  by (simp add: dryAdiabats_map theta0Values_def adiabatPressures_def
      adiabatPolyline_def length_descending nth_descending adiabat_at_1000)

text \<open>
  Claim C3. The background grid (isobars, isotherms, dry adiabats) that
  \<open>createTemperatureChart\<close> emits is the same for any two soundings under the same
  density setting: it reads no field of the sounding, and is the value of a function
  of the density setting alone (\<open>skewFactor\<close> being a constant of the program).
\<close>

theorem background_grid_independent:
  "isobarTraces (createTemperatureChart lowPerf data1)
     = isobarTraces (createTemperatureChart lowPerf data2)
   \<and> isothermTraces (createTemperatureChart lowPerf data1)
     = isothermTraces (createTemperatureChart lowPerf data2)
   \<and> dryAdiabatTraces (createTemperatureChart lowPerf data1)
     = dryAdiabatTraces (createTemperatureChart lowPerf data2)
   \<and> take (length isobars + length (isotherms lowPerf) + length (dryAdiabats lowPerf))
         (traces (createTemperatureChart lowPerf data1))
     = isobars @ isotherms lowPerf @ dryAdiabats lowPerf"
  by (simp add: createTemperatureChart_def traces_def)

text \<open>
  The isotherms in closed form. For every nominal temperature from -80 to 40 in steps
  of \<open>isothermStep\<close> (10 in full mode: 13 curves; 20 in constrained mode: 7 curves) one
  polyline is emitted. Its pressures start at 1050 hPa and go down by \<open>pressureStep\<close>
  while they are at least 100 hPa: in full mode (step 50) the 20 pressures 1050, 1000,
  ..., 100; in constrained mode (step 100) the 10 pressures 1050, 950, ..., 150. Each
  point is skewed with the temperature held constant.
\<close>

theorem isotherm_polylines:
  "isothermTraces (createTemperatureChart False data)
     = map (isothermPolyline
              [1050, 1000, 950, 900, 850, 800, 750, 700, 650, 600,
               550, 500, 450, 400, 350, 300, 250, 200, 150, 100])
           [-80, -70, -60, -50, -40, -30, -20, -10, 0, 10, 20, 30, 40]
   \<and> isothermTraces (createTemperatureChart True data)
     = map (isothermPolyline [1050, 950, 850, 750, 650, 550, 450, 350, 250, 150])
           [-80, -60, -40, -20, 0, 20, 40]
   \<and> isothermStep False = 10 \<and> pressureStep False = 50
   \<and> isothermStep True = 20 \<and> pressureStep True = 100"
  by (simp add: createTemperatureChart_def isotherms_full isotherms_constrained
      descending_full descending_constrained ascending_full ascending_constrained
      isothermStep_def pressureStep_def)

text \<open>
  Claim C7. For every nominal isotherm temperature from -80 to 40 in steps of
  \<open>isothermStep\<close>, the polyline samples pressure from 1050 hPa down to 100 hPa
  inclusive at \<open>pressureStep\<close>, each point skewed with the temperature held constant.
  The loop runs while \<open>p >= 100\<close> in both modes. In full mode the first isotherm ends
  at 100 hPa. In constrained mode the start 1050 and the step 100 never meet 100: the
  first isotherm there has its last point at 150 hPa and none at 100 hPa.
\<close>

theorem isotherm_constrained_stops_at_150:
  "pressureStep True = 100
   \<and> trace_y (isotherms True ! 0)
       = map Num [1050, 950, 850, 750, 650, 550, 450, 350, 250, 150]
   \<and> last (trace_y (isotherms True ! 0)) = Num 150
   \<and> Num 100 \<notin> set (trace_y (isotherms True ! 0))
   \<and> pressureStep False = 50
   \<and> last (trace_y (isotherms False ! 0)) = Num 100"
  by (simp add: isotherms_constrained descending_constrained ascending_constrained
      isotherms_full descending_full ascending_full isothermPolyline_def pressureStep_def)

text \<open>
  Claim C8. Over the same pressure range the constrained density setting gives no more
  isotherm curves and no more dry-adiabat curves than the full one, and every
  constrained curve has strictly fewer sampled points than every full curve of the
  same family.
\<close>

theorem density_monotone:
  "length (isothermTraces (createTemperatureChart True data))
     \<le> length (isothermTraces (createTemperatureChart False data))
   \<and> length (dryAdiabatTraces (createTemperatureChart True data))
     \<le> length (dryAdiabatTraces (createTemperatureChart False data))
   \<and> (\<forall>c \<in> set (isothermTraces (createTemperatureChart True data)).
       \<forall>f \<in> set (isothermTraces (createTemperatureChart False data)).
         length (trace_x c) < length (trace_x f) \<and> length (trace_y c) < length (trace_y f))
   \<and> (\<forall>c \<in> set (dryAdiabatTraces (createTemperatureChart True data)).
       \<forall>f \<in> set (dryAdiabatTraces (createTemperatureChart False data)).
         length (trace_x c) < length (trace_x f) \<and> length (trace_y c) < length (trace_y f))"
  by (simp add: createTemperatureChart_def isotherm_sizes adiabat_sizes)

theorem density_monotone_witness:
  "isotherms True ! 0 \<in> set (isothermTraces (createTemperatureChart True sampleSounding))
   \<and> isotherms False ! 0 \<in> set (isothermTraces (createTemperatureChart False sampleSounding))
   \<and> dryAdiabats True ! 0 \<in> set (dryAdiabatTraces (createTemperatureChart True sampleSounding))
   \<and> dryAdiabats False ! 0 \<in> set (dryAdiabatTraces (createTemperatureChart False sampleSounding))
   \<and> length (trace_x (isotherms True ! 0)) < length (trace_x (isotherms False ! 0))
   \<and> length (trace_x (dryAdiabats True ! 0)) < length (trace_x (dryAdiabats False ! 0))
   \<and> length (trace_x (isotherms True ! 0)) = 10
   \<and> length (trace_x (dryAdiabats False ! 0)) = 96"
proof -
  have m: "isotherms True ! 0 \<in> set (isothermTraces (createTemperatureChart True sampleSounding))"
    "isotherms False ! 0 \<in> set (isothermTraces (createTemperatureChart False sampleSounding))"
    "dryAdiabats True ! 0 \<in> set (dryAdiabatTraces (createTemperatureChart True sampleSounding))"
    "dryAdiabats False ! 0 \<in> set (dryAdiabatTraces (createTemperatureChart False sampleSounding))"
    by (simp_all add: createTemperatureChart_def isotherm_sizes(1,2) adiabat_sizes(1,2))
  have n: "length (trace_x (isotherms True ! 0)) = 10"
    "length (trace_x (dryAdiabats False ! 0)) = 96"
    using m by (simp_all add: createTemperatureChart_def isotherm_sizes(4) adiabat_sizes(3))
  from density_monotone [of sampleSounding] m
  have "length (trace_x (isotherms True ! 0)) < length (trace_x (isotherms False ! 0))"
    "length (trace_x (dryAdiabats True ! 0)) < length (trace_x (dryAdiabats False ! 0))"
    by blast+
  with m n show ?thesis
    by simp
qed

section \<open>Speed and direction of the wind\<close>

lemma windLoop_map:
  "i \<le> length (u_wind data) \<Longrightarrow>
   windLoop data i (ws, wd) =
     (ws @ map (\<lambda>j. speedOf (num_at (u_wind data) j) (num_at (v_wind data) j))
              [i..<length (u_wind data)],
      wd @ map (\<lambda>j. directionOf (num_at (u_wind data) j) (num_at (v_wind data) j))
              [i..<length (u_wind data)])"
proof (induction "length (u_wind data) - i" arbitrary: i ws wd)
  case 0
  then show ?case by (subst windLoop.simps) simp
next
  case (Suc d)
  then have lt: "i < length (u_wind data)" and d: "d = length (u_wind data) - Suc i"
    and le: "Suc i \<le> length (u_wind data)"
    by simp_all
  show ?case
    using lt by (subst windLoop.simps) (simp add: Let_def Suc.hyps(1) [OF d le] upt_conv_Cons)
qed

lemma windSpeed_map:
  "windSpeed data = map (\<lambda>j. speedOf (num_at (u_wind data) j) (num_at (v_wind data) j))
                      [0..<length (u_wind data)]"
  by (simp add: windSpeed_def windLoop_map)

lemma windDirection_map:
  "windDirection data = map (\<lambda>j. directionOf (num_at (u_wind data) j) (num_at (v_wind data) j))
                      [0..<length (u_wind data)]"
  by (simp add: windDirection_def windLoop_map)

lemma speedOf_Num: "speedOf (Num u) (Num v) = Num (sqrt (u * u + v * v))"
  by (simp add: speedOf_def jadd_def jmul_def)

lemma directionOf_Num:
  "directionOf (Num u) (Num v) = Num (fmod (atan2 u v * 180 / pi + 180) 360)"
  by (simp add: directionOf_def jadd_def jmul_def jdiv_def)

lemma atan2_bounds: "- pi < atan2 y x \<and> atan2 y x \<le> pi"
proof -
  have lb: "- (pi / 2) < arctan (y / x)" and ub: "arctan (y / x) < pi / 2"
    by (rule arctan_lbound, rule arctan_ubound)
  consider "0 < x" | "x < 0" "0 \<le> y" | "x < 0" "y < 0" | "x = 0"
    by linarith
  then show ?thesis
  proof cases
    case 1
    then have "atan2 y x = arctan (y / x)" by (simp add: atan2_def)
    with lb ub pi_gt_zero show ?thesis by linarith
  next
    case 2
    then have "y / x \<le> 0" by (simp add: divide_nonneg_neg)
    then have le: "arctan (y / x) \<le> 0" by (simp add: arctan_le_zero_iff)
    from 2 have "atan2 y x = arctan (y / x) + pi" by (simp add: atan2_def)
    with lb le pi_gt_zero show ?thesis by linarith
  next
    case 3
    then have "0 < y / x" by (simp add: divide_neg_neg)
    then have gt: "0 < arctan (y / x)" by (simp add: zero_less_arctan_iff)
    from 3 have "atan2 y x = arctan (y / x) - pi" by (simp add: atan2_def)
    with ub gt pi_gt_zero show ?thesis by linarith
  next
    case 4
    then have "atan2 y x = pi / 2 \<or> atan2 y x = - pi / 2 \<or> atan2 y x = 0"
      by (simp add: atan2_def)
    with pi_gt_zero show ?thesis by linarith
  qed
qed

lemma fmod_360_range:
  assumes "0 < t" "t \<le> 360"
  shows "0 \<le> fmod t 360 \<and> fmod t 360 < 360"
proof (cases "t = 360")
  case True
  then show ?thesis by (simp add: fmod_def trunc_def)
next
  case False
  with assms have lt: "t < 360" by simp
  with assms have "0 \<le> t / 360" "t / 360 < 1" by simp_all
  then have "\<lfloor>t / 360\<rfloor> = 0" by linarith
  with assms lt show ?thesis by (simp add: fmod_def trunc_def)
qed

lemma direction_range:
  "0 \<le> fmod (atan2 u v * 180 / pi + 180) 360 \<and> fmod (atan2 u v * 180 / pi + 180) 360 < 360"
proof -
  have p: "0 < pi" by (rule pi_gt_zero)
  from atan2_bounds [of u v]
  have "- pi * 180 < atan2 u v * 180" "atan2 u v * 180 \<le> pi * 180" by simp_all
  with p have "- 180 < atan2 u v * 180 / pi" "atan2 u v * 180 / pi \<le> 180"
    by (simp_all add: pos_less_divide_eq pos_divide_le_eq)
  then show ?thesis
    by (intro fmod_360_range) simp_all
qed

lemma north_wind: "speedOf (Num 0) (Num (-10)) = Num 10" "directionOf (Num 0) (Num (-10)) = Num 0"
  by (simp_all add: speedOf_Num directionOf_Num atan2_def fmod_def trunc_def)

text \<open>
  Claim C4. For every level with finite wind components \<open>u\<close>, \<open>v\<close> the wind chart
  holds \<open>speed = sqrt (u * u + v * v)\<close>, which is not negative, and
  \<open>direction = (atan2 (u, v) * 180 / pi + 180) % 360\<close>, which lies in the interval
  from 0 (included) to 360 (excluded). For \<open>u = 0\<close>, \<open>v = -10\<close> the speed is 10 and
  the direction 0.
\<close>

theorem wind_resolution:
  assumes "length (u_wind data) = N" "length (v_wind data) = N" "i < N"
  shows "windSpeed data ! i = Num (sqrt (u_wind data ! i * u_wind data ! i + v_wind data ! i * v_wind data ! i))
       \<and> 0 \<le> sqrt (u_wind data ! i * u_wind data ! i + v_wind data ! i * v_wind data ! i)
       \<and> windDirection data ! i = Num (fmod (atan2 (u_wind data ! i) (v_wind data ! i) * 180 / pi + 180) 360)
       \<and> 0 \<le> fmod (atan2 (u_wind data ! i) (v_wind data ! i) * 180 / pi + 180) 360
       \<and> fmod (atan2 (u_wind data ! i) (v_wind data ! i) * 180 / pi + 180) 360 < 360
       \<and> speedOf (Num 0) (Num (-10)) = Num 10
       \<and> directionOf (Num 0) (Num (-10)) = Num 0"
proof -
  have s: "windSpeed data ! i
             = Num (sqrt (u_wind data ! i * u_wind data ! i + v_wind data ! i * v_wind data ! i))"
    using assms by (simp add: windSpeed_map num_at_def at_index_def speedOf_Num)
  have d: "windDirection data ! i
             = Num (fmod (atan2 (u_wind data ! i) (v_wind data ! i) * 180 / pi + 180) 360)"
    using assms by (simp add: windDirection_map num_at_def at_index_def directionOf_Num)
  show ?thesis
    using s d direction_range [of "u_wind data ! i" "v_wind data ! i"] north_wind
    by simp
qed

theorem wind_resolution_witness:
  "length (u_wind sampleSounding) = 5 \<and> length (v_wind sampleSounding) = 5 \<and> (0::nat) < 5
   \<and> u_wind sampleSounding ! 0 = 0 \<and> v_wind sampleSounding ! 0 = -10
   \<and> windSpeed sampleSounding ! 0 = Num 10
   \<and> windDirection sampleSounding ! 0 = Num 0"
  using wind_resolution [of sampleSounding 5 0]
  by (simp add: sampleSounding_def atan2_def fmod_def trunc_def)

section \<open>The barb glyph of one level\<close>

lemma jlt_loopCount: "jlt (Num (real f)) n \<longleftrightarrow> f < loopCount n"
proof (cases n)
  case (Num r)
  have "real f < r \<longleftrightarrow> int f < \<lceil>r\<rceil>"
    by linarith
  then show ?thesis
    using Num by (simp add: loopCount_def) linarith
next
  case NaN
  then show ?thesis by (simp add: loopCount_def)
qed

lemma flagLoop_map:
  "f \<le> loopCount n \<Longrightarrow>
   flagLoop n x1 dirRad p f (c, acc) =
     (c - 0.15 * real (loopCount n - f),
      acc @ map (\<lambda>k. flagTrace x1 dirRad p (c - 0.15 * real k)) [0..<loopCount n - f])"
proof (induction "loopCount n - f" arbitrary: f c acc)
  case 0
  then have "\<not> f < loopCount n" by simp
  then show ?case
    using 0 by (subst flagLoop.simps) (simp add: jlt_loopCount)
next
  case (Suc d)
  then have lt: "f < loopCount n" and d: "d = loopCount n - Suc f"
    and le: "Suc f \<le> loopCount n"
    by simp_all
  have s: "loopCount n - f = Suc d"
    using Suc.hyps(2) by simp
  show ?case
    using lt
    by (subst flagLoop.simps)
       (simp add: jlt_loopCount Let_def Suc.hyps(1) [OF d le] s d [symmetric] map_upt_Suc
          flagTrace_def algebra_simps add_divide_distrib del: upt_Suc)
qed

lemma tickLoop_map:
  "b \<le> loopCount n \<Longrightarrow>
   tickLoop n x1 dirRad p b (c, acc) =
     (c - 0.1 * real (loopCount n - b),
      acc @ map (\<lambda>k. tickTrace x1 dirRad p (c - 0.1 * real k)) [0..<loopCount n - b])"
proof (induction "loopCount n - b" arbitrary: b c acc)
  case 0
  then have "\<not> b < loopCount n" by simp
  then show ?case
    using 0 by (subst tickLoop.simps) (simp add: jlt_loopCount)
next
  case (Suc d)
  then have lt: "b < loopCount n" and d: "d = loopCount n - Suc b"
    and le: "Suc b \<le> loopCount n"
    by simp_all
  have s: "loopCount n - b = Suc d"
    using Suc.hyps(2) by simp
  show ?case
    using lt
    by (subst tickLoop.simps)
       (simp add: jlt_loopCount Let_def Suc.hyps(1) [OF d le] s d [symmetric] map_upt_Suc
          tickTrace_def algebra_simps add_divide_distrib del: upt_Suc)
qed

lemma barbGlyph_parts:
  "barbGlyph speed dir p acc =
     acc @ [shaftTrace (glyphX1 speed dir) (glyphDirRad dir) p]
       @ map (\<lambda>k. flagTrace (glyphX1 speed dir) (glyphDirRad dir) p (0.7 - 0.15 * real k))
           [0..<loopCount (numFlags speed)]
       @ map (\<lambda>k. tickTrace (glyphX1 speed dir) (glyphDirRad dir) p
                    (0.7 - 0.15 * real (loopCount (numFlags speed)) - 0.1 * real k))
           [0..<loopCount (numBarbs speed)]"
  by (simp add: barbGlyph_def Let_def flagLoop_map tickLoop_map glyphX1_def glyphDirRad_def
      shaftTrace_def)

lemma barbGlyph_append: "barbGlyph speed dir p acc = acc @ barbGlyph speed dir p []"
  by (simp add: barbGlyph_parts [of speed dir p acc] barbGlyph_parts [of speed dir p "[]"])

lemma filter_map_all: "(\<And>k. P (g k)) \<Longrightarrow> filter P (map g ks) = map g ks"
  by (induction ks) simp_all

lemma filter_map_none: "(\<And>k. \<not> P (g k)) \<Longrightarrow> filter P (map g ks) = []"
  by (induction ks) simp_all

lemma glyph_counts:
  "length (filter isShaft (barbGlyph speed dir p [])) = 1"
  "length (filter isFlag (barbGlyph speed dir p [])) = loopCount (numFlags speed)"
  "length (filter isTick (barbGlyph speed dir p [])) = loopCount (numBarbs speed)"
  "length (barbGlyph speed dir p []) = 1 + loopCount (numFlags speed) + loopCount (numBarbs speed)"
  by (simp_all add: barbGlyph_parts filter_map_all filter_map_none isShaft_def isFlag_def
      isTick_def shaftTrace_def flagTrace_def tickTrace_def)

lemma numFlags_Num: "numFlags (Num s) = Num (real_of_int \<lfloor>s / 50\<rfloor>)"
  by (simp add: numFlags_def jdiv_def)

lemma numBarbs_Num:
  "numBarbs (Num s) = Num (real_of_int \<lfloor>(s - real_of_int \<lfloor>s / 50\<rfloor> * 50) / 10\<rfloor>)"
  by (simp add: numBarbs_def numFlags_Num jdiv_def jsub_def jmul_def)

lemma loopCount_of_int: "loopCount (Num (real_of_int z)) = nat z"
  by (simp add: loopCount_def)

lemma tick_remainder:
  "0 \<le> r - real_of_int \<lfloor>r / 10\<rfloor> * 10" "r - real_of_int \<lfloor>r / 10\<rfloor> * 10 < 10"
proof -
  have "real_of_int \<lfloor>r / 10\<rfloor> \<le> r / 10" "r / 10 < real_of_int \<lfloor>r / 10\<rfloor> + 1"
    by linarith+
  then show "0 \<le> r - real_of_int \<lfloor>r / 10\<rfloor> * 10" "r - real_of_int \<lfloor>r / 10\<rfloor> * 10 < 10"
    by linarith+
qed

lemma floor_nonneg_nat: "0 \<le> r \<Longrightarrow> int (nat \<lfloor>r\<rfloor>) = \<lfloor>r::real\<rfloor>"
  by simp

text \<open>
  Claim C5. For a level with speed \<open>s \<ge> 0\<close> the glyph carries exactly
  \<open>numFlags = floor (s / 50)\<close> pennants and
  \<open>numBarbs = floor ((s - numFlags * 50) / 10)\<close> ticks beside its shaft, and nothing
  else; what is left of the speed after the pennants and ticks is under 10 units.
  Speed 65 gives one pennant and one tick.
\<close>

theorem barb_decomposition:
  assumes "0 \<le> s"
  shows "numFlags (Num s) = Num (real_of_int \<lfloor>s / 50\<rfloor>)
       \<and> numBarbs (Num s) = Num (real_of_int \<lfloor>(s - real_of_int \<lfloor>s / 50\<rfloor> * 50) / 10\<rfloor>)
       \<and> int (length (filter isFlag (barbGlyph (Num s) dir p []))) = \<lfloor>s / 50\<rfloor>
       \<and> int (length (filter isTick (barbGlyph (Num s) dir p [])))
           = \<lfloor>(s - real_of_int \<lfloor>s / 50\<rfloor> * 50) / 10\<rfloor>
       \<and> int (length (barbGlyph (Num s) dir p []))
           = 1 + \<lfloor>s / 50\<rfloor> + \<lfloor>(s - real_of_int \<lfloor>s / 50\<rfloor> * 50) / 10\<rfloor>
       \<and> 0 \<le> s - real_of_int \<lfloor>s / 50\<rfloor> * 50
               - real_of_int \<lfloor>(s - real_of_int \<lfloor>s / 50\<rfloor> * 50) / 10\<rfloor> * 10
       \<and> s - real_of_int \<lfloor>s / 50\<rfloor> * 50
               - real_of_int \<lfloor>(s - real_of_int \<lfloor>s / 50\<rfloor> * 50) / 10\<rfloor> * 10 < 10
       \<and> numFlags (Num 65) = Num 1 \<and> numBarbs (Num 65) = Num 1"
proof -
  have a: "numFlags (Num 65) = Num 1"
    by (simp add: numFlags_Num)
  then have b: "numBarbs (Num 65) = Num 1"
    by (simp add: numBarbs_def jdiv_def jsub_def jmul_def)
  have "real_of_int \<lfloor>s / 50\<rfloor> \<le> s / 50"
    by linarith
  then have r: "0 \<le> (s - real_of_int \<lfloor>s / 50\<rfloor> * 50) / 10"
    by simp
  have f: "0 \<le> s / 50"
    using assms by simp
  show ?thesis
    using tick_remainder [of "s - real_of_int \<lfloor>s / 50\<rfloor> * 50"] a b
      floor_nonneg_nat [OF f] floor_nonneg_nat [OF r]
    by (simp add: glyph_counts numFlags_Num numBarbs_Num loopCount_of_int)
qed

theorem barb_decomposition_witness:
  "(0::real) \<le> 65
   \<and> length (filter isFlag (barbGlyph (Num 65) (Num 90) (Num 700) [])) = 1
   \<and> length (filter isTick (barbGlyph (Num 65) (Num 90) (Num 700) [])) = 1
   \<and> length (barbGlyph (Num 65) (Num 90) (Num 700) []) = 3"
proof -
  have f: "\<lfloor>65 / 50 :: real\<rfloor> = 1" by linarith
  have t: "\<lfloor>15 / 10 :: real\<rfloor> = 1" by linarith
  show ?thesis
    using barb_decomposition [of 65 "Num 90" "Num 700"] by (simp add: f t)
qed

section \<open>The decimation of the wind barbs\<close>

lemma levels_count_step:
  assumes "0 < k" "i < N"
  shows "(N - i + k - 1) div k = Suc ((N - (i + k) + k - 1) div k)"
proof (cases "k \<le> N - i")
  case True
  with assms have e: "N - i + k - 1 = (N - (i + k) + k - 1) + k"
    by linarith
  from assms have "((N - (i + k) + k - 1) + k) div k = (N - (i + k) + k - 1) div k + 1"
    by (intro div_add_self2) simp
  with e show ?thesis
    by (simp only: Suc_eq_plus1)
next
  case False
  with assms have e: "N - i + k - 1 = (N - i - 1) + k" and lt: "N - i - 1 < k"
    and z: "N - (i + k) + k - 1 < k"
    by linarith+
  from assms have "((N - i - 1) + k) div k = (N - i - 1) div k + 1"
    by (intro div_add_self2) simp
  with e have "(N - i + k - 1) div k = (N - i - 1) div k + 1"
    by (simp only:)
  moreover from lt have "(N - i - 1) div k = 0"
    by (rule div_less)
  moreover from z have "(N - (i + k) + k - 1) div k = 0"
    by (rule div_less)
  ultimately show ?thesis
    by (simp only: Suc_eq_plus1 add_0)
qed

lemma levelsFrom_step:
  assumes "0 < k" "i < N"
  shows "levelsFrom i k N = i # levelsFrom (i + k) k N"
proof -
  let ?c = "(N - (i + k) + k - 1) div k"
  have "levelsFrom i k N = map (\<lambda>m. i + m * k) [0..<Suc ?c]"
    by (simp only: levelsFrom_def levels_count_step [OF assms])
  also have "\<dots> = i # map (\<lambda>m. i + Suc m * k) [0..<?c]"
    by (simp add: map_upt_Suc del: upt_Suc)
  also have "\<dots> = i # levelsFrom (i + k) k N"
    by (simp add: levelsFrom_def algebra_simps)
  finally show ?thesis .
qed

lemma levelsFrom_done: "N \<le> i \<Longrightarrow> 0 < k \<Longrightarrow> levelsFrom i k N = []"
  by (simp add: levelsFrom_def)

lemma barbInterval_pos: "0 < barbInterval data"
  by (simp add: barbInterval_def)

lemma barbLoop_levels:
  assumes "length (pressure data) \<le> length ws" "length ws = length wd"
  shows "barbLoop data ws wd i acc =
     Inr (acc @ concat (map (\<lambda>j. barbGlyph (ws ! j) (wd ! j) (Num (pressure data ! j)) [])
                        (levelsFrom i (barbInterval data) (length (pressure data)))))"
proof (induction "length (pressure data) - i" arbitrary: i acc rule: less_induct)
  case less
  show ?case
  proof (cases "i < length (pressure data)")
    case False
    then show ?thesis
      by (subst barbLoop.simps) (simp add: levelsFrom_done barbInterval_pos)
  next
    case True
    then have "length (pressure data) - (i + barbInterval data) < length (pressure data) - i"
      using barbInterval_pos [of data] by simp
    note ih = less.hyps [OF this]
    from True assms have "at_index ws i = Some (ws ! i)" "at_index wd i = Some (wd ! i)"
      by (simp_all add: at_index_def)
    then show ?thesis
      using True
      by (subst barbLoop.simps)
         (simp add: ih levelsFrom_step [OF barbInterval_pos True]
            barbGlyph_append [of _ _ _ acc])
  qed
qed

lemma length_windSpeed: "length (windSpeed data) = length (u_wind data)"
  by (simp add: windSpeed_map)

lemma length_windDirection: "length (windDirection data) = length (u_wind data)"
  by (simp add: windDirection_map)

lemma createWindChart_levels:
  assumes "length (pressure data) \<le> length (u_wind data)"
  shows "createWindChart data =
     Inr \<lparr>speedTrace = \<lparr>trace_x = windSpeed data, trace_y = map Num (pressure data),
                         line_width = 2.5, fill_toself = False\<rparr>,
          barbTraces = concat (map (\<lambda>j. barbGlyph (windSpeed data ! j) (windDirection data ! j)
                                            (Num (pressure data ! j)) [])
                                 (selectedLevels (length (pressure data))))\<rparr>"
  using assms
  by (simp add: createWindChart_def barbLoop_levels length_windSpeed length_windDirection
      selectedLevels_def levelsFrom_def barbInterval_def)

lemma shafts_of_glyphs:
  "length (filter isShaft (concat (map (\<lambda>j. barbGlyph (s j) (d j) (p j) []) js))) = length js"
  by (induction js) (simp_all add: glyph_counts)

lemma length_selectedLevels:
  "length (selectedLevels N) = (N + max 1 (N div 20) - 1) div max 1 (N div 20)"
  by (simp add: selectedLevels_def levelsFrom_def)

lemma selectedLevels_small: "N < 40 \<Longrightarrow> selectedLevels N = [0..<N]"
proof -
  assume "N < 40"
  then have "max 1 (N div 20) = 1" by simp
  then show ?thesis
    by (simp add: selectedLevels_def levelsFrom_def map_idI)
qed

lemma selectedLevels_bounds:
  "length (selectedLevels N) \<le> 39" "20 \<le> N \<Longrightarrow> 20 \<le> length (selectedLevels N)"
proof -
  define k where "k = max 1 (N div 20)"
  have k: "1 \<le> k" by (simp add: k_def)
  have "N < 20 * (N div 20 + 1)"
    by (simp add: dividend_less_times_div)
  then have "N < 20 * k + 20"
    unfolding k_def by simp
  then have "N + k - 1 < 39 * k + k"
    using k by simp
  then have "(N + k - 1) div k < 39 + 1"
    using k by (simp add: less_mult_imp_div_less)
  then show "length (selectedLevels N) \<le> 39"
    by (simp add: length_selectedLevels k_def)
  show "20 \<le> length (selectedLevels N)" if "20 \<le> N"
  proof -
    from that have kk: "k = N div 20"
      by (simp add: k_def)
    then have "20 * k \<le> N"
      by simp
    then have "20 * k \<le> N + k - 1"
      using k by simp
    then have "20 \<le> (N + k - 1) div k"
      using k by (simp add: less_eq_div_iff_mult_less_eq mult.commute)
    then show ?thesis
      by (simp add: length_selectedLevels k_def)
  qed
qed

lemma selectedLevels_5: "selectedLevels 5 = [0, 1, 2, 3, 4]"
  by (simp add: selectedLevels_small upt_rec)

lemma min_20_selected: "min N 20 \<le> length (selectedLevels N)"
proof (cases "20 \<le> N")
  case True
  then show ?thesis using selectedLevels_bounds(2) [of N] by simp
next
  case False
  then show ?thesis by (simp add: selectedLevels_small)
qed

lemma selectedLevels_40:
  "selectedLevels 40
     = [0, 2, 4, 6, 8, 10, 12, 14, 16, 18, 20, 22, 24, 26, 28, 30, 32, 34, 36, 38]"
proof -
  have k: "max 1 (40 div 20) = (2::nat)"
    by simp
  have c: "((40::nat) - 0 + 2 - 1) div 2 = 20"
    by simp
  have "selectedLevels 40 = map (\<lambda>m. 0 + m * 2) [0..<20]"
    unfolding selectedLevels_def levelsFrom_def k c ..
  also have "\<dots> = [0, 2, 4, 6, 8, 10, 12, 14, 16, 18, 20, 22, 24, 26, 28, 30, 32, 34, 36, 38]"
    by (simp add: upt_rec)
  finally show ?thesis .
qed

text \<open>
  The selection rule of the barb loop. For a sounding of \<open>N\<close> levels the loop draws one
  glyph for each of the levels 0, k, 2k, ... below \<open>N\<close>, where
  \<open>k = max(1, floor(N / 20))\<close>, and for no other level. The number of glyphs is the
  number of these levels: all \<open>N\<close> when \<open>N < 20\<close>, and between 20 and 39 otherwise.
  For \<open>N = 5\<close> the interval is 1 and every level is selected.
\<close>

theorem barb_decimation:
  assumes "length (pressure data) = N" and "length (u_wind data) = N"
  shows "(\<exists>chart. createWindChart data = Inr chart
            \<and> barbTraces chart
                = concat (map (\<lambda>j. barbGlyph (windSpeed data ! j) (windDirection data ! j)
                                     (Num (pressure data ! j)) [])
                            (selectedLevels N))
            \<and> length (filter isShaft (barbTraces chart)) = length (selectedLevels N))
       \<and> barbInterval data = max 1 (N div 20)
       \<and> selectedLevels N
           = map (\<lambda>m. m * max 1 (N div 20)) [0..<(N + max 1 (N div 20) - 1) div max 1 (N div 20)]
       \<and> min N 20 \<le> length (selectedLevels N)
       \<and> length (selectedLevels N) \<le> 39
       \<and> selectedLevels 5 = [0, 1, 2, 3, 4]"
proof -
  have "length (pressure data) \<le> length (u_wind data)"
    using assms by simp
  from createWindChart_levels [OF this]
  have "\<exists>chart. createWindChart data = Inr chart
            \<and> barbTraces chart
                = concat (map (\<lambda>j. barbGlyph (windSpeed data ! j) (windDirection data ! j)
                                     (Num (pressure data ! j)) [])
                            (selectedLevels N))
            \<and> length (filter isShaft (barbTraces chart)) = length (selectedLevels N)"
    using assms by (simp add: shafts_of_glyphs)
  moreover have "barbInterval data = max 1 (N div 20)"
    using assms by (simp add: barbInterval_def)
  moreover have "selectedLevels N
           = map (\<lambda>m. m * max 1 (N div 20)) [0..<(N + max 1 (N div 20) - 1) div max 1 (N div 20)]"
    by (simp add: selectedLevels_def levelsFrom_def)
  ultimately show ?thesis
    using min_20_selected [of N] selectedLevels_bounds(1) [of N] selectedLevels_5
    by blast
qed

theorem barb_decimation_witness:
  "length (pressure (uniformSounding 40)) = 40 \<and> length (u_wind (uniformSounding 40)) = 40
   \<and> barbInterval (uniformSounding 40) = 2
   \<and> selectedLevels 40
       = [0, 2, 4, 6, 8, 10, 12, 14, 16, 18, 20, 22, 24, 26, 28, 30, 32, 34, 36, 38]
   \<and> (\<exists>chart. createWindChart (uniformSounding 40) = Inr chart
          \<and> length (filter isShaft (barbTraces chart)) = 20)"
proof -
  have n: "length (pressure (uniformSounding 40)) = 40"
    "length (u_wind (uniformSounding 40)) = 40"
    by (simp_all add: uniformSounding_def)
  from barb_decimation [OF n] n selectedLevels_40 show ?thesis
    by auto
qed

text \<open>
  Claim C6. The decimation selects exactly the levels 0, k, 2k, ... with
  \<open>k = max(1, floor(N / 20))\<close>, so that at most about 20 barbs are drawn whatever
  \<open>N\<close> is; for \<open>N = 5\<close> the interval is 1 and every level is selected. The comment on
  the interval in the program states the same target of about 20 barbs. The selection
  rule holds. The target is missed: the floor keeps the interval at 1 up to 39 levels,
  so a sounding of 39 levels gets 39 barbs, while one of 40 levels has interval 2 and
  gets 20.
\<close>

theorem barbs_at_39_levels:
  "length (pressure (uniformSounding 39)) = 39
   \<and> barbInterval (uniformSounding 39) = 1
   \<and> (case createWindChart (uniformSounding 39) of
         Inr chart \<Rightarrow> length (filter isShaft (barbTraces chart))
       | Inl e \<Rightarrow> 0) = 39
   \<and> length (pressure (uniformSounding 40)) = 40
   \<and> barbInterval (uniformSounding 40) = 2
   \<and> (case createWindChart (uniformSounding 40) of
         Inr chart \<Rightarrow> length (filter isShaft (barbTraces chart))
       | Inl e \<Rightarrow> 0) = 20"
proof -
  have a: "length (pressure (uniformSounding n)) \<le> length (u_wind (uniformSounding n))" for n
    by (simp add: uniformSounding_def)
  have n: "length (pressure (uniformSounding n)) = n" for n
    by (simp add: uniformSounding_def)
  have l40: "length (selectedLevels 40) = 20"
    by (simp add: selectedLevels_40)
  have "(case createWindChart (uniformSounding 39) of
         Inr chart \<Rightarrow> length (filter isShaft (barbTraces chart))
       | Inl e \<Rightarrow> 0) = 39"
    by (simp add: createWindChart_levels [OF a] n shafts_of_glyphs selectedLevels_small)
  moreover have "(case createWindChart (uniformSounding 40) of
         Inr chart \<Rightarrow> length (filter isShaft (barbTraces chart))
       | Inl e \<Rightarrow> 0) = 20"
    by (simp add: createWindChart_levels [OF a] n shafts_of_glyphs l40)
  ultimately show ?thesis
    by (simp add: n barbInterval_def)
qed

section \<open>The data table against the wind chart\<close>

lemma tableLoop_rows:
  assumes "length (pressure data) \<le> length (temperature data)"
    and "length (pressure data) \<le> length (dewpoint data)"
  shows "i \<le> length (pressure data) \<Longrightarrow>
     tableLoop toFixed data i acc =
       Inr (acc @ map (\<lambda>j. \<lparr>pressureCell = toFixed (Num (pressure data ! j)) 1,
                              temperatureCell = toFixed (Num (temperature data ! j)) 1,
                              dewpointCell = toFixed (Num (dewpoint data ! j)) 1,
                              speedCell = toFixed (speedOf (num_at (u_wind data) j)
                                                           (num_at (v_wind data) j)) 1,
                              directionCell = toFixed (directionOf (num_at (u_wind data) j)
                                                                   (num_at (v_wind data) j)) 0\<rparr>)
                      [i..<length (pressure data)])"
proof (induction "length (pressure data) - i" arbitrary: i acc)
  case 0
  then show ?case by (subst tableLoop.simps) simp
next
  case (Suc d)
  then have lt: "i < length (pressure data)" and d: "d = length (pressure data) - Suc i"
    and le: "Suc i \<le> length (pressure data)"
    by simp_all
  from lt assms have "at_index (temperature data) i = Some (temperature data ! i)"
    "at_index (dewpoint data) i = Some (dewpoint data ! i)"
    by (simp_all add: at_index_def)
  then show ?case
    using lt
    by (subst tableLoop.simps) (simp add: Let_def Suc.hyps(1) [OF d le] upt_conv_Cons)
qed

text \<open>
  Claim C10. For every level \<open>i\<close> of a sounding, the speed and direction cells of the
  data table are the renderings (\<open>toFixed\<close> with 1 and 0 digits) of the very values
  that the wind chart holds in \<open>windSpeed[i]\<close> and \<open>windDirection[i]\<close>: both are
  \<open>sqrt (u[i] * u[i] + v[i] * v[i])\<close> and
  \<open>(atan2 (u[i], v[i]) * 180 / pi + 180) % 360\<close>.
\<close>

theorem table_matches_chart:
  assumes "length (pressure data) = N" and "length (temperature data) = N"
    and "length (dewpoint data) = N" and "length (u_wind data) = N"
    and "length (v_wind data) = N" and "i < N"
  shows "\<exists>rows. createDataTable toFixed data = Inr rows
           \<and> length rows = N
           \<and> speedCell (rows ! i) = toFixed (windSpeed data ! i) 1
           \<and> directionCell (rows ! i) = toFixed (windDirection data ! i) 0
           \<and> windSpeed data ! i = speedOf (Num (u_wind data ! i)) (Num (v_wind data ! i))
           \<and> windDirection data ! i
               = directionOf (Num (u_wind data ! i)) (Num (v_wind data ! i))
           \<and> windSpeed data ! i
               = Num (sqrt (u_wind data ! i * u_wind data ! i + v_wind data ! i * v_wind data ! i))
           \<and> windDirection data ! i
               = Num (fmod (atan2 (u_wind data ! i) (v_wind data ! i) * 180 / pi + 180) 360)
           \<and> speedCell (rows ! i)
               = toFixed (Num (sqrt (u_wind data ! i * u_wind data ! i
                                     + v_wind data ! i * v_wind data ! i))) 1
           \<and> directionCell (rows ! i)
               = toFixed (Num (fmod (atan2 (u_wind data ! i) (v_wind data ! i) * 180 / pi + 180)
                                 360)) 0"
proof -
  have le: "length (pressure data) \<le> length (temperature data)"
    "length (pressure data) \<le> length (dewpoint data)"
    using assms by simp_all
  have s: "speedOf (num_at (u_wind data) i) (num_at (v_wind data) i)
             = Num (sqrt (u_wind data ! i * u_wind data ! i + v_wind data ! i * v_wind data ! i))"
    using assms by (simp add: num_at_in_range speedOf_Num)
  have d: "directionOf (num_at (u_wind data) i) (num_at (v_wind data) i)
             = Num (fmod (atan2 (u_wind data ! i) (v_wind data ! i) * 180 / pi + 180) 360)"
    using assms by (simp add: num_at_in_range directionOf_Num)
  have e: "speedOf (Num (u_wind data ! i)) (Num (v_wind data ! i))
             = Num (sqrt (u_wind data ! i * u_wind data ! i + v_wind data ! i * v_wind data ! i))"
    "directionOf (Num (u_wind data ! i)) (Num (v_wind data ! i))
             = Num (fmod (atan2 (u_wind data ! i) (v_wind data ! i) * 180 / pi + 180) 360)"
    by (simp_all add: speedOf_Num directionOf_Num)
  from tableLoop_rows [OF le, of 0 toFixed "[]"] assms show ?thesis
    by (simp add: createDataTable_def windSpeed_map windDirection_map s d e)
qed

theorem table_matches_chart_witness:
  "length (pressure sampleSounding) = 5 \<and> length (temperature sampleSounding) = 5
   \<and> length (dewpoint sampleSounding) = 5 \<and> length (u_wind sampleSounding) = 5
   \<and> length (v_wind sampleSounding) = 5 \<and> (4::nat) < 5
   \<and> u_wind sampleSounding ! 4 = -20 \<and> v_wind sampleSounding ! 4 = 0
   \<and> windSpeed sampleSounding ! 4 = Num 20
   \<and> windDirection sampleSounding ! 4 = Num 90
   \<and> (\<exists>rows. createDataTable
                 (\<lambda>n digits. if n = Num 20 \<and> digits = 1 then ''20.0''
                              else if n = Num 90 \<and> digits = 0 then ''90'' else ''other'')
                 sampleSounding = Inr rows
          \<and> length rows = 5
          \<and> speedCell (rows ! 4) = ''20.0''
          \<and> directionCell (rows ! 4) = ''90'')"
proof -
  have q: "sqrt 400 = (20::real)"
    using real_sqrt_abs2 [of 20] by simp
  have a: "fmod (atan2 (-20) 0 * 180 / pi + 180) 360 = 90"
    by (simp add: atan2_def fmod_def trunc_def)
  show ?thesis
    using table_matches_chart [of sampleSounding 5 4
        "\<lambda>n digits. if n = Num 20 \<and> digits = 1 then ''20.0''
                     else if n = Num 90 \<and> digits = 0 then ''90'' else ''other''"] q a
    by (auto simp: sampleSounding_def)
qed

end
